theory Spec2Isabelle
  imports Main
begin

section \<open>Organization mutations of the SaaS starter kit\<close>

text \<open>
  A shallow embedding of \<^verbatim>\<open>starterkits/saas/src/server/actions/organization/mutations.ts\<close>.
  Every exported mutation becomes a function from the ambient context of the call, its
  payload and the store to the pair of its outcome and the store it leaves behind. A thrown
  \<^verbatim>\<open>Error\<close> is the left injection of the outcome; the store of the pair is then the store
  at the moment of the throw, since no mutation runs inside a transaction.

  Strings are lists of characters; \<^verbatim>\<open>length\<close> counts the units of the string, as the
  \<^verbatim>\<open>.length\<close> that the validator's \<^verbatim>\<open>min\<close> and \<^verbatim>\<open>max\<close> read does.
\<close>

subsection \<open>Rows and tables\<close>

datatype role = Admin | Member

record organization =
  org_id :: string
  org_name :: string
  org_image :: string
  org_ownerId :: string

record membership =
  mto_memberId :: string
  mto_organizationId :: string
  mto_role :: role

record orgRequest =
  req_id :: string
  req_userId :: string
  req_organizationId :: string

text \<open>The three tables the module touches, each a list of rows in insertion order.\<close>

record db =
  organizations :: "organization list"
  membersToOrganizations :: "membership list"
  orgRequests :: "orgRequest list"

subsection \<open>Errors\<close>

text \<open>
  A validation issue is the path of the offending field and the message.
  \<^verbatim>\<open>new Error(message, { cause })\<close> is \<open>Error message (Some cause)\<close>, and
  \<^verbatim>\<open>new Error(message)\<close> is \<open>Error message None\<close>. \<open>StoreFailure\<close> is the rejection of an
  awaited store call, which the mutations do not catch.
\<close>

type_synonym issue = "string \<times> string"

datatype error = Error string "issue list option" | StoreFailure

definition notOwner :: error where
  "notOwner = Error ''You are not the owner of this organization'' None"

definition notAdmin :: error where
  "notAdmin = Error ''You are not an admin of this organization'' None"

definition requestNotFound :: error where
  "requestNotFound = Error ''Request not found'' None"

text \<open>The error classes of the interface, read off the thrown messages.\<close>

fun NotAuthorized :: "error \<Rightarrow> bool" where
  "NotAuthorized (Error m c) =
     (m = ''You are not the owner of this organization''
      \<or> m = ''You are not an admin of this organization'')"
| "NotAuthorized StoreFailure = False"

fun NotFound :: "error \<Rightarrow> bool" where
  "NotFound (Error m c) = (m = ''Request not found'')"
| "NotFound StoreFailure = False"

fun ValidationError :: "error \<Rightarrow> bool" where
  "ValidationError (Error m c) =
     ((m = ''Invalid organization data'' \<or> m = ''Invalid request data''
       \<or> m = ''Invalid update member data'' \<or> m = ''Invalid remove user data'')
      \<and> c \<noteq> None)"
| "ValidationError StoreFailure = False"

definition denied :: "(error + 'a) \<times> db \<Rightarrow> bool" where
  "denied r = (case fst r of Inl err \<Rightarrow> NotAuthorized err | Inr v \<Rightarrow> False)"

subsection \<open>Ambient context of a call\<close>

text \<open>
  \<^verbatim>\<open>protectedProcedure()\<close> yields the session's user and \<^verbatim>\<open>getOrganizations()\<close> the
  caller's current organization; both are resolved before the first statement modelled
  here and are inputs of the model. \<open>storeFails k\<close> tells whether the \<open>k\<close>-th store call
  that the mutation awaits (counted from 0 in source order) rejects. \<open>generatedId\<close> is the
  id that the store assigns to a row inserted without one.
\<close>

record env =
  user :: string
  currentOrg :: organization
  storeFails :: "nat \<Rightarrow> bool"
  generatedId :: string

text \<open>
  The schemas built by \<^verbatim>\<open>createInsertSchema\<close> check each column as the table declares
  it. The table declarations (\<^verbatim>\<open>@/server/db/schema\<close>) are not among the sources, and
  neither is the URL test of the validation library; they are parameters. A column check
  returns the issues it raises, none when the value is accepted.
\<close>

record checks =
  isUrl :: "string \<Rightarrow> bool"
  ownerId_issues :: "string \<Rightarrow> issue list"
  organizationId_issues :: "string \<Rightarrow> issue list"
  userId_issues :: "string \<Rightarrow> issue list"
  memberId_issues :: "string \<Rightarrow> issue list"

subsection \<open>Validation schemas\<close>

text \<open>\<^verbatim>\<open>z.string().min(3, ...).max(50, ...)\<close>: every failing check adds its issue.\<close>

definition name_issues :: "string \<Rightarrow> issue list" where
  "name_issues name =
     (if length name < 3 then [(''name'', ''Name must be at least 3 characters long'')] else [])
     @ (if length name > 50 then [(''name'', ''Name must be at most 50 characters long'')] else [])"

text \<open>\<^verbatim>\<open>z.string().url({ message: "Invalid image URL" })\<close>\<close>

definition image_issues :: "checks \<Rightarrow> string \<Rightarrow> issue list" where
  "image_issues V img = (if isUrl V img then [] else [(''image'', ''Invalid image URL'')])"

text \<open>
  \<^verbatim>\<open>createOrgSchema\<close> is applied to \<^verbatim>\<open>{ ownerId: user.id, ...props }\<close>. The type of
  \<^verbatim>\<open>props\<close> omits \<^verbatim>\<open>id\<close> and \<^verbatim>\<open>ownerId\<close>, so the owner is always the caller and the
  id is left to the store; the fields of the payload are the two the source documents,
  the name and the image. The issues are listed name first.
\<close>

record organizationInsert =
  ins_name :: string
  ins_image :: string
  ins_ownerId :: string

definition createOrgSchema ::
  "checks \<Rightarrow> string \<Rightarrow> string \<Rightarrow> string \<Rightarrow> issue list + organizationInsert" where
  "createOrgSchema V ownerId name img =
     (let issues = name_issues name @ image_issues V img @ ownerId_issues V ownerId
      in if issues = [] then Inr \<lparr>ins_name = name, ins_image = img, ins_ownerId = ownerId\<rparr>
         else Inl issues)"

definition updateOrgNameSchema :: "string \<Rightarrow> issue list + string" where
  "updateOrgNameSchema name =
     (let issues = name_issues name in if issues = [] then Inr name else Inl issues)"

definition updateOrgImageSchema :: "checks \<Rightarrow> string \<Rightarrow> issue list + string" where
  "updateOrgImageSchema V img =
     (let issues = image_issues V img in if issues = [] then Inr img else Inl issues)"

definition orgRequestSchema :: "checks \<Rightarrow> string \<Rightarrow> string \<Rightarrow> issue list + string \<times> string" where
  "orgRequestSchema V organizationId userId =
     (let issues = organizationId_issues V organizationId @ userId_issues V userId
      in if issues = [] then Inr (organizationId, userId) else Inl issues)"

text \<open>
  \<^verbatim>\<open>z.object({ requestId: z.string() })\<close> and \<^verbatim>\<open>z.object({ userId: z.string() })\<close>
  accept every string.
\<close>

definition acceptOrgRequestSchema :: "string \<Rightarrow> issue list + string" where
  "acceptOrgRequestSchema requestId = Inr requestId"

definition declineOrgRequestSchema :: "string \<Rightarrow> issue list + string" where
  "declineOrgRequestSchema requestId = Inr requestId"

definition removeUserSchema :: "string \<Rightarrow> issue list + string" where
  "removeUserSchema userId = Inr userId"

text \<open>The role column is an enumeration, so a value of type \<open>role\<close> always passes.\<close>

definition updateMemberRoleSchema :: "checks \<Rightarrow> string \<Rightarrow> role \<Rightarrow> issue list + string \<times> role" where
  "updateMemberRoleSchema V memberId r =
     (let issues = memberId_issues V memberId
      in if issues = [] then Inr (memberId, r) else Inl issues)"

subsection \<open>Store calls\<close>

text \<open>
  Each store call takes the flag that says whether it rejects. A rejected call leaves the
  store as it was.
\<close>

text \<open>
  Modelled from the spec: the declaration of the table \<^verbatim>\<open>organizations\<close> is not among
  the sources. The spec gives an organization a unique id, so
  \<^verbatim>\<open>db.insert(organizations).values(data).returning()\<close> rejects when the id is already
  in the table, and returns the inserted row otherwise.
\<close>

definition insert_organization ::
  "bool \<Rightarrow> string \<Rightarrow> organizationInsert \<Rightarrow> db \<Rightarrow> error + organization \<times> db" where
  "insert_organization fails newId d s =
     (if fails \<or> newId \<in> set (map org_id (organizations s)) then Inl StoreFailure
      else let row = \<lparr>org_id = newId, org_name = ins_name d, org_image = ins_image d,
                       org_ownerId = ins_ownerId d\<rparr>
           in Inr (row, s\<lparr>organizations := organizations s @ [row]\<rparr>))"

text \<open>
  Modelled from the spec: the declaration of the table \<^verbatim>\<open>membersToOrganizations\<close> is not
  among the sources. The spec gives it one row per (organization, member) pair, so an
  insert for a pair already present rejects, and \<open>Member\<close> as the default role of a row
  inserted without one.
\<close>

definition insert_member :: "bool \<Rightarrow> string \<Rightarrow> string \<Rightarrow> role option \<Rightarrow> db \<Rightarrow> error + db" where
  "insert_member fails memberId organizationId r s =
     (if fails \<or> (\<exists>m \<in> set (membersToOrganizations s).
                     mto_memberId m = memberId \<and> mto_organizationId m = organizationId)
      then Inl StoreFailure
      else Inr (s\<lparr>membersToOrganizations := membersToOrganizations s @
                  [\<lparr>mto_memberId = memberId, mto_organizationId = organizationId,
                    mto_role = (case r of None \<Rightarrow> Member | Some r' \<Rightarrow> r')\<rparr>]\<rparr>))"

text \<open>
  Modelled from the spec: the declaration of the table \<^verbatim>\<open>orgRequests\<close> is not among the
  sources. The spec gives it at most one row per (organization, member) pair, kept by a
  uniqueness constraint of the store. \<^verbatim>\<open>onConflictDoNothing\<close> turns a conflict, on the
  pair or on the primary key, into a successful insert of no row.
\<close>

definition insert_request_onConflictDoNothing ::
  "bool \<Rightarrow> string \<Rightarrow> string \<Rightarrow> string \<Rightarrow> db \<Rightarrow> error + db" where
  "insert_request_onConflictDoNothing fails newId organizationId userId s =
     (if fails then Inl StoreFailure
      else if (\<exists>r \<in> set (orgRequests s).
                 (req_organizationId r = organizationId \<and> req_userId r = userId)
                 \<or> req_id r = newId)
      then Inr s
      else Inr (s\<lparr>orgRequests := orgRequests s @
                  [\<lparr>req_id = newId, req_userId = userId,
                    req_organizationId = organizationId\<rparr>]\<rparr>))"

text \<open>
  \<^verbatim>\<open>db.query.membersToOrganizations.findFirst\<close> with the three equalities on member,
  organization and the role \<^verbatim>\<open>"Admin"\<close>.
\<close>

definition find_admin_membership ::
  "bool \<Rightarrow> string \<Rightarrow> string \<Rightarrow> db \<Rightarrow> error + membership option" where
  "find_admin_membership fails memberId organizationId s =
     (if fails then Inl StoreFailure
      else Inr (find (\<lambda>m. mto_memberId m = memberId \<and> mto_organizationId m = organizationId
                          \<and> mto_role m = Admin) (membersToOrganizations s)))"

text \<open>\<^verbatim>\<open>db.query.orgRequests.findFirst({ where: eq(orgRequests.id, requestId) })\<close>\<close>

definition find_request :: "bool \<Rightarrow> string \<Rightarrow> db \<Rightarrow> error + orgRequest option" where
  "find_request fails requestId s =
     (if fails then Inl StoreFailure
      else Inr (find (\<lambda>r. req_id r = requestId) (orgRequests s)))"

definition update_organization_name :: "bool \<Rightarrow> string \<Rightarrow> string \<Rightarrow> db \<Rightarrow> error + db" where
  "update_organization_name fails organizationId name s =
     (if fails then Inl StoreFailure
      else Inr (s\<lparr>organizations :=
                  map (\<lambda>org. if org_id org = organizationId then org\<lparr>org_name := name\<rparr> else org)
                      (organizations s)\<rparr>))"

definition update_organization_image :: "bool \<Rightarrow> string \<Rightarrow> string \<Rightarrow> db \<Rightarrow> error + db" where
  "update_organization_image fails organizationId img s =
     (if fails then Inl StoreFailure
      else Inr (s\<lparr>organizations :=
                  map (\<lambda>org. if org_id org = organizationId then org\<lparr>org_image := img\<rparr> else org)
                      (organizations s)\<rparr>))"

text \<open>
  Modelled from the spec: the foreign keys of the two dependent tables are declared with
  the tables, which are not among the sources. The spec makes the deletion of an
  organization cascade to its memberships and its join requests.
\<close>

definition delete_organization :: "bool \<Rightarrow> string \<Rightarrow> db \<Rightarrow> error + db" where
  "delete_organization fails organizationId s =
     (if fails then Inl StoreFailure
      else Inr \<lparr>organizations = filter (\<lambda>org. org_id org \<noteq> organizationId) (organizations s),
                membersToOrganizations =
                  filter (\<lambda>m. mto_organizationId m \<noteq> organizationId) (membersToOrganizations s),
                orgRequests =
                  filter (\<lambda>r. req_organizationId r \<noteq> organizationId) (orgRequests s)\<rparr>)"

definition delete_request :: "bool \<Rightarrow> string \<Rightarrow> db \<Rightarrow> error + db" where
  "delete_request fails requestId s =
     (if fails then Inl StoreFailure
      else Inr (s\<lparr>orgRequests := filter (\<lambda>r. req_id r \<noteq> requestId) (orgRequests s)\<rparr>))"

definition update_member_role :: "bool \<Rightarrow> string \<Rightarrow> string \<Rightarrow> role \<Rightarrow> db \<Rightarrow> error + db" where
  "update_member_role fails memberId organizationId r s =
     (if fails then Inl StoreFailure
      else Inr (s\<lparr>membersToOrganizations :=
                  map (\<lambda>m. if mto_memberId m = memberId \<and> mto_organizationId m = organizationId
                           then m\<lparr>mto_role := r\<rparr> else m)
                      (membersToOrganizations s)\<rparr>))"

definition delete_member :: "bool \<Rightarrow> string \<Rightarrow> string \<Rightarrow> db \<Rightarrow> error + db" where
  "delete_member fails memberId organizationId s =
     (if fails then Inl StoreFailure
      else Inr (s\<lparr>membersToOrganizations :=
                  filter (\<lambda>m. \<not> (mto_memberId m = memberId \<and> mto_organizationId m = organizationId))
                         (membersToOrganizations s)\<rparr>))"

subsection \<open>The mutations\<close>

text \<open>
  Each mutation follows its source statement by statement: the schema first, then the
  store calls in the order in which they are awaited, each with its own number for
  \<open>storeFails\<close>. A rejected store call ends the mutation with the store as the earlier
  calls have left it.
\<close>

text \<open>Lines 32-59: the organization row, then the owner's row with the role \<open>Admin\<close>.\<close>

definition createOrgMutation ::
  "checks \<Rightarrow> env \<Rightarrow> string \<Rightarrow> string \<Rightarrow> db \<Rightarrow> (error + organization) \<times> db" where
  "createOrgMutation V e name img s =
     (case createOrgSchema V (user e) name img of
        Inl issues \<Rightarrow> (Inl (Error ''Invalid organization data'' (Some issues)), s)
      | Inr d \<Rightarrow>
          (case insert_organization (storeFails e 0) (generatedId e) d s of
             Inl err \<Rightarrow> (Inl err, s)
           | Inr (createOrg, s1) \<Rightarrow>
               (case insert_member (storeFails e 1) (ins_ownerId d) (org_id createOrg)
                       (Some Admin) s1 of
                  Inl err \<Rightarrow> (Inl err, s1)
                | Inr s2 \<Rightarrow> (Inr createOrg, s2))))"

text \<open>Lines 76-108.\<close>

definition updateOrgNameMutation :: "env \<Rightarrow> string \<Rightarrow> db \<Rightarrow> (error + unit) \<times> db" where
  "updateOrgNameMutation e name s =
     (case updateOrgNameSchema name of
        Inl issues \<Rightarrow> (Inl (Error ''Invalid organization data'' (Some issues)), s)
      | Inr name' \<Rightarrow>
          (case find_admin_membership (storeFails e 0) (user e) (org_id (currentOrg e)) s of
             Inl err \<Rightarrow> (Inl err, s)
           | Inr memToOrg \<Rightarrow>
               if org_ownerId (currentOrg e) = user e \<or> memToOrg \<noteq> None
               then (case update_organization_name (storeFails e 1) (org_id (currentOrg e))
                            name' s of
                       Inl err \<Rightarrow> (Inl err, s)
                     | Inr s' \<Rightarrow> (Inr (), s'))
               else (Inl notAdmin, s)))"

text \<open>Lines 122-154.\<close>

definition updateOrgImageMutation :: "checks \<Rightarrow> env \<Rightarrow> string \<Rightarrow> db \<Rightarrow> (error + unit) \<times> db" where
  "updateOrgImageMutation V e img s =
     (case updateOrgImageSchema V img of
        Inl issues \<Rightarrow> (Inl (Error ''Invalid organization data'' (Some issues)), s)
      | Inr img' \<Rightarrow>
          (case find_admin_membership (storeFails e 0) (user e) (org_id (currentOrg e)) s of
             Inl err \<Rightarrow> (Inl err, s)
           | Inr memToOrg \<Rightarrow>
               if org_ownerId (currentOrg e) = user e \<or> memToOrg \<noteq> None
               then (case update_organization_image (storeFails e 1) (org_id (currentOrg e))
                            img' s of
                       Inl err \<Rightarrow> (Inl err, s)
                     | Inr s' \<Rightarrow> (Inr (), s'))
               else (Inl notAdmin, s)))"

text \<open>Lines 161-174: the owner test comes before the only store call.\<close>

definition deleteOrgMutation :: "env \<Rightarrow> db \<Rightarrow> (error + unit) \<times> db" where
  "deleteOrgMutation e s =
     (if org_ownerId (currentOrg e) \<noteq> user e then (Inl notOwner, s)
      else (case delete_organization (storeFails e 0) (org_id (currentOrg e)) s of
              Inl err \<Rightarrow> (Inl err, s)
            | Inr s' \<Rightarrow> (Inr (), s')))"

text \<open>Lines 187-214.\<close>

definition sendOrgRequestMutation :: "checks \<Rightarrow> env \<Rightarrow> string \<Rightarrow> db \<Rightarrow> (error + unit) \<times> db" where
  "sendOrgRequestMutation V e orgId s =
     (case orgRequestSchema V orgId (user e) of
        Inl issues \<Rightarrow> (Inl (Error ''Invalid organization data'' (Some issues)), s)
      | Inr (organizationId, userId) \<Rightarrow>
          (case insert_request_onConflictDoNothing (storeFails e 0) (generatedId e)
                  organizationId userId s of
             Inl err \<Rightarrow> (Inl err, s)
           | Inr s' \<Rightarrow> (Inr (), s')))"

text \<open>
  Lines 227-273: the membership row takes \<^verbatim>\<open>request.userId\<close> and \<^verbatim>\<open>currentOrg.id\<close> and
  no role, so the role is the default of the column.
\<close>

definition acceptOrgRequestMutation :: "env \<Rightarrow> string \<Rightarrow> db \<Rightarrow> (error + unit) \<times> db" where
  "acceptOrgRequestMutation e requestId s =
     (case acceptOrgRequestSchema requestId of
        Inl issues \<Rightarrow> (Inl (Error ''Invalid request data'' (Some issues)), s)
      | Inr requestId' \<Rightarrow>
          (case find_admin_membership (storeFails e 0) (user e) (org_id (currentOrg e)) s of
             Inl err \<Rightarrow> (Inl err, s)
           | Inr memToOrg \<Rightarrow>
               if org_ownerId (currentOrg e) = user e \<or> memToOrg \<noteq> None
               then (case find_request (storeFails e 1) requestId' s of
                       Inl err \<Rightarrow> (Inl err, s)
                     | Inr None \<Rightarrow> (Inl requestNotFound, s)
                     | Inr (Some request) \<Rightarrow>
                         (case insert_member (storeFails e 2) (req_userId request)
                                 (org_id (currentOrg e)) None s of
                            Inl err \<Rightarrow> (Inl err, s)
                          | Inr s1 \<Rightarrow>
                              (case delete_request (storeFails e 3) requestId' s1 of
                                 Inl err \<Rightarrow> (Inl err, s1)
                               | Inr s2 \<Rightarrow> (Inr (), s2))))
               else (Inl notAdmin, s)))"

text \<open>Lines 286-319.\<close>

definition declineOrgRequestMutation :: "env \<Rightarrow> string \<Rightarrow> db \<Rightarrow> (error + unit) \<times> db" where
  "declineOrgRequestMutation e requestId s =
     (case declineOrgRequestSchema requestId of
        Inl issues \<Rightarrow> (Inl (Error ''Invalid request data'' (Some issues)), s)
      | Inr requestId' \<Rightarrow>
          (case find_admin_membership (storeFails e 0) (user e) (org_id (currentOrg e)) s of
             Inl err \<Rightarrow> (Inl err, s)
           | Inr memToOrg \<Rightarrow>
               if org_ownerId (currentOrg e) = user e \<or> memToOrg \<noteq> None
               then (case delete_request (storeFails e 1) requestId' s of
                       Inl err \<Rightarrow> (Inl err, s)
                     | Inr s' \<Rightarrow> (Inr (), s'))
               else (Inl notAdmin, s)))"

text \<open>
  Lines 336-387: the lookup of the caller's row is awaited before the test that reserves
  the role \<open>Admin\<close> to the owner.
\<close>

definition updateMemberRoleMutation ::
  "checks \<Rightarrow> env \<Rightarrow> string \<Rightarrow> role \<Rightarrow> db \<Rightarrow> (error + unit) \<times> db" where
  "updateMemberRoleMutation V e memberId r s =
     (case updateMemberRoleSchema V memberId r of
        Inl issues \<Rightarrow> (Inl (Error ''Invalid update member data'' (Some issues)), s)
      | Inr (memberId', r') \<Rightarrow>
          (case find_admin_membership (storeFails e 0) (user e) (org_id (currentOrg e)) s of
             Inl err \<Rightarrow> (Inl err, s)
           | Inr memToOrg \<Rightarrow>
               if r' = Admin \<and> org_ownerId (currentOrg e) \<noteq> user e then (Inl notOwner, s)
               else if org_ownerId (currentOrg e) = user e \<or> memToOrg \<noteq> None
               then (case update_member_role (storeFails e 1) memberId'
                            (org_id (currentOrg e)) r' s of
                       Inl err \<Rightarrow> (Inl err, s)
                     | Inr s' \<Rightarrow> (Inr (), s'))
               else (Inl notAdmin, s)))"

text \<open>Lines 400-439.\<close>

definition removeUserMutation :: "env \<Rightarrow> string \<Rightarrow> db \<Rightarrow> (error + unit) \<times> db" where
  "removeUserMutation e userId s =
     (case removeUserSchema userId of
        Inl issues \<Rightarrow> (Inl (Error ''Invalid remove user data'' (Some issues)), s)
      | Inr userId' \<Rightarrow>
          (case find_admin_membership (storeFails e 0) (user e) (org_id (currentOrg e)) s of
             Inl err \<Rightarrow> (Inl err, s)
           | Inr memToOrg \<Rightarrow>
               if org_ownerId (currentOrg e) = user e \<or> memToOrg \<noteq> None
               then (case delete_member (storeFails e 1) userId' (org_id (currentOrg e)) s of
                       Inl err \<Rightarrow> (Inl err, s)
                     | Inr s' \<Rightarrow> (Inr (), s'))
               else (Inl notAdmin, s)))"

subsection \<open>The conditions the mutations branch on\<close>

text \<open>
  \<open>isOwner\<close> is the test \<^verbatim>\<open>currentOrg.ownerId === user.id\<close>; \<open>isAdmin\<close> says that the
  lookup of the caller's \<^verbatim>\<open>"Admin"\<close> row for the current organization finds a row.
\<close>

definition isOwner :: "env \<Rightarrow> bool" where
  "isOwner e \<longleftrightarrow> org_ownerId (currentOrg e) = user e"

definition isAdmin :: "env \<Rightarrow> db \<Rightarrow> bool" where
  "isAdmin e s \<longleftrightarrow>
     (\<exists>m \<in> set (membersToOrganizations s).
        mto_memberId m = user e \<and> mto_organizationId m = org_id (currentOrg e)
        \<and> mto_role m = Admin)"

text \<open>The rows of a table that belong to one (organization, member) pair.\<close>

definition memberships_of :: "string \<Rightarrow> string \<Rightarrow> db \<Rightarrow> membership list" where
  "memberships_of memberId organizationId s =
     filter (\<lambda>m. mto_memberId m = memberId \<and> mto_organizationId m = organizationId)
            (membersToOrganizations s)"

definition requests_of :: "string \<Rightarrow> string \<Rightarrow> db \<Rightarrow> orgRequest list" where
  "requests_of organizationId userId s =
     filter (\<lambda>r. req_organizationId r = organizationId \<and> req_userId r = userId)
            (orgRequests s)"

subsection \<open>A sample store\<close>

definition acceptAll :: checks where
  "acceptAll = \<lparr>isUrl = (\<lambda>u. True), ownerId_issues = (\<lambda>v. []),
                 organizationId_issues = (\<lambda>v. []), userId_issues = (\<lambda>v. []),
                 memberId_issues = (\<lambda>v. [])\<rparr>"

text \<open>Checks that accept every id and take for a URL what starts with \<open>https://\<close>.\<close>

definition httpsOnly :: checks where
  "httpsOnly = \<lparr>isUrl = (\<lambda>u. take 8 u = ''https://''), ownerId_issues = (\<lambda>v. []),
                 organizationId_issues = (\<lambda>v. []), userId_issues = (\<lambda>v. []),
                 memberId_issues = (\<lambda>v. [])\<rparr>"

definition acme :: organization where
  "acme = \<lparr>org_id = ''org-a'', org_name = ''Acme'', org_image = ''https://acme.example/a.png'',
            org_ownerId = ''olivia''\<rparr>"

definition globex :: organization where
  "globex = \<lparr>org_id = ''org-b'', org_name = ''Globex'',
              org_image = ''https://globex.example/g.png'', org_ownerId = ''greta''\<rparr>"

definition store0 :: db where
  "store0 =
     \<lparr>organizations = [acme, globex],
      membersToOrganizations =
        [\<lparr>mto_memberId = ''olivia'', mto_organizationId = ''org-a'', mto_role = Admin\<rparr>,
         \<lparr>mto_memberId = ''adam'', mto_organizationId = ''org-a'', mto_role = Admin\<rparr>,
         \<lparr>mto_memberId = ''mia'', mto_organizationId = ''org-a'', mto_role = Member\<rparr>,
         \<lparr>mto_memberId = ''greta'', mto_organizationId = ''org-b'', mto_role = Admin\<rparr>],
      orgRequests =
        [\<lparr>req_id = ''req-1'', req_userId = ''nora'', req_organizationId = ''org-a''\<rparr>,
         \<lparr>req_id = ''req-2'', req_userId = ''paul'', req_organizationId = ''org-b''\<rparr>]\<rparr>"

text \<open>A call by \<open>u\<close> in the context of \<open>org\<close> during which no store call rejects.\<close>

definition as_caller :: "string \<Rightarrow> organization \<Rightarrow> env" where
  "as_caller u org = \<lparr>user = u, currentOrg = org, storeFails = (\<lambda>k. False),
                        generatedId = ''fresh-1''\<rparr>"

text \<open>The same call when exactly the \<open>k\<close>-th store call rejects.\<close>

definition failing_at :: "nat \<Rightarrow> env \<Rightarrow> env" where
  "failing_at k e = e\<lparr>storeFails := (\<lambda>i. i = k)\<rparr>"

section \<open>The authorization tests\<close>

lemma find_found: "(find P xs \<noteq> None) = (\<exists>x \<in> set xs. P x)"
  by (induction xs) simp_all

lemma isAdmin_find:
  "isAdmin e s = (find (\<lambda>m. mto_memberId m = user e \<and> mto_organizationId m = org_id (currentOrg e)
                          \<and> mto_role m = Admin) (membersToOrganizations s) \<noteq> None)"
  unfolding isAdmin_def by (rule find_found [symmetric])

lemma find_admin_membership_cases:
  "find_admin_membership f (user e) (org_id (currentOrg e)) s = Inl StoreFailure \<and> f
   \<or> (\<exists>m. find_admin_membership f (user e) (org_id (currentOrg e)) s = Inr m
          \<and> (m \<noteq> None) = isAdmin e s \<and> \<not> f)"
  by (simp add: find_admin_membership_def isAdmin_find)

lemma NotAuthorized_simps2 [simp]: "NotAuthorized notOwner" "NotAuthorized notAdmin"
  "\<not> NotAuthorized requestNotFound" "\<not> NotAuthorized (Error ''Invalid organization data'' c)"
  "\<not> NotAuthorized (Error ''Invalid request data'' c)"
  "\<not> NotAuthorized (Error ''Invalid update member data'' c)"
  "\<not> NotAuthorized (Error ''Invalid remove user data'' c)"
  by (simp_all add: notOwner_def notAdmin_def requestNotFound_def)

lemma delete_unauth: "\<not> isOwner e \<Longrightarrow> deleteOrgMutation e s = (Inl notOwner, s)"
  by (simp add: deleteOrgMutation_def isOwner_def)

lemma role_admin_unchanged:
  "\<not> isOwner e \<Longrightarrow> snd (updateMemberRoleMutation V e memberId Admin s) = s"
  using find_admin_membership_cases[of "storeFails e 0" e s]
  by (auto simp: updateMemberRoleMutation_def updateMemberRoleSchema_def Let_def isOwner_def
      split: sum.splits)

lemma role_admin_unauth:
  "\<not> isOwner e \<Longrightarrow> memberId_issues V memberId = [] \<Longrightarrow> \<not> storeFails e 0 \<Longrightarrow>
   updateMemberRoleMutation V e memberId Admin s = (Inl notOwner, s)"
  by (auto simp: updateMemberRoleMutation_def updateMemberRoleSchema_def Let_def isOwner_def
      find_admin_membership_def split: sum.splits)

lemma delete_owner:
  "isOwner e \<Longrightarrow> \<not> denied (deleteOrgMutation e s)"
  by (auto simp: deleteOrgMutation_def isOwner_def denied_def delete_organization_def)

lemma delete_owner_ok:
  "isOwner e \<Longrightarrow> \<not> storeFails e 0 \<Longrightarrow>
   deleteOrgMutation e s =
     (Inr (), \<lparr>organizations = filter (\<lambda>org. org_id org \<noteq> org_id (currentOrg e)) (organizations s),
                membersToOrganizations =
                  filter (\<lambda>m. mto_organizationId m \<noteq> org_id (currentOrg e)) (membersToOrganizations s),
                orgRequests =
                  filter (\<lambda>r. req_organizationId r \<noteq> org_id (currentOrg e)) (orgRequests s)\<rparr>)"
  by (auto simp: deleteOrgMutation_def isOwner_def delete_organization_def)

lemma role_owner:
  "isOwner e \<Longrightarrow> \<not> denied (updateMemberRoleMutation V e memberId r s)"
  by (auto simp: updateMemberRoleMutation_def updateMemberRoleSchema_def Let_def isOwner_def
      denied_def find_admin_membership_def update_member_role_def split: sum.splits)

lemma role_owner_ok:
  "isOwner e \<Longrightarrow> memberId_issues V memberId = [] \<Longrightarrow> \<not> storeFails e 0 \<Longrightarrow> \<not> storeFails e 1 \<Longrightarrow>
   updateMemberRoleMutation V e memberId r s =
     (Inr (), s\<lparr>membersToOrganizations :=
                  map (\<lambda>m. if mto_memberId m = memberId \<and> mto_organizationId m = org_id (currentOrg e)
                           then m\<lparr>mto_role := r\<rparr> else m)
                      (membersToOrganizations s)\<rparr>)"
  by (auto simp: updateMemberRoleMutation_def updateMemberRoleSchema_def Let_def isOwner_def
      find_admin_membership_def update_member_role_def split: sum.splits)

lemmas gate_defs = isOwner_def find_admin_membership_def isAdmin_find denied_def Let_def

lemma rename_unchanged:
  "\<not> isOwner e \<Longrightarrow> \<not> isAdmin e s \<Longrightarrow> snd (updateOrgNameMutation e name s) = s"
  by (simp add: updateOrgNameMutation_def updateOrgNameSchema_def gate_defs)

lemma rename_unauth:
  "\<not> isOwner e \<Longrightarrow> \<not> isAdmin e s \<Longrightarrow> \<not> storeFails e 0 \<Longrightarrow> name_issues name = [] \<Longrightarrow>
   updateOrgNameMutation e name s = (Inl notAdmin, s)"
  by (simp add: updateOrgNameMutation_def updateOrgNameSchema_def gate_defs)

lemma rename_gate:
  "isOwner e \<or> isAdmin e s \<Longrightarrow> \<not> denied (updateOrgNameMutation e name s)"
  by (auto simp: updateOrgNameMutation_def updateOrgNameSchema_def gate_defs
      update_organization_name_def)

lemma rename_ok:
  "isOwner e \<or> isAdmin e s \<Longrightarrow> \<not> storeFails e 0 \<Longrightarrow> \<not> storeFails e 1 \<Longrightarrow>
   name_issues name = [] \<Longrightarrow> fst (updateOrgNameMutation e name s) = Inr ()"
  by (auto simp: updateOrgNameMutation_def updateOrgNameSchema_def gate_defs
      update_organization_name_def)

lemma reimage_unchanged:
  "\<not> isOwner e \<Longrightarrow> \<not> isAdmin e s \<Longrightarrow> snd (updateOrgImageMutation V e img s) = s"
  by (simp add: updateOrgImageMutation_def updateOrgImageSchema_def gate_defs)

lemma reimage_unauth:
  "\<not> isOwner e \<Longrightarrow> \<not> isAdmin e s \<Longrightarrow> \<not> storeFails e 0 \<Longrightarrow> isUrl V img \<Longrightarrow>
   updateOrgImageMutation V e img s = (Inl notAdmin, s)"
  by (simp add: updateOrgImageMutation_def updateOrgImageSchema_def image_issues_def gate_defs)

lemma reimage_gate:
  "isOwner e \<or> isAdmin e s \<Longrightarrow> \<not> denied (updateOrgImageMutation V e img s)"
  by (auto simp: updateOrgImageMutation_def updateOrgImageSchema_def gate_defs
      update_organization_image_def)

lemma reimage_ok:
  "isOwner e \<or> isAdmin e s \<Longrightarrow> \<not> storeFails e 0 \<Longrightarrow> \<not> storeFails e 1 \<Longrightarrow> isUrl V img \<Longrightarrow>
   fst (updateOrgImageMutation V e img s) = Inr ()"
  by (auto simp: updateOrgImageMutation_def updateOrgImageSchema_def image_issues_def gate_defs
      update_organization_image_def)

lemma demote_unchanged:
  "\<not> isOwner e \<Longrightarrow> \<not> isAdmin e s \<Longrightarrow> snd (updateMemberRoleMutation V e memberId Member s) = s"
  by (simp add: updateMemberRoleMutation_def updateMemberRoleSchema_def gate_defs)

lemma demote_unauth:
  "\<not> isOwner e \<Longrightarrow> \<not> isAdmin e s \<Longrightarrow> \<not> storeFails e 0 \<Longrightarrow> memberId_issues V memberId = [] \<Longrightarrow>
   updateMemberRoleMutation V e memberId Member s = (Inl notAdmin, s)"
  by (simp add: updateMemberRoleMutation_def updateMemberRoleSchema_def gate_defs)

lemma demote_gate:
  "isOwner e \<or> isAdmin e s \<Longrightarrow> \<not> denied (updateMemberRoleMutation V e memberId Member s)"
  by (auto simp: updateMemberRoleMutation_def updateMemberRoleSchema_def gate_defs
      update_member_role_def)

lemma demote_ok:
  "isOwner e \<or> isAdmin e s \<Longrightarrow> \<not> storeFails e 0 \<Longrightarrow> \<not> storeFails e 1 \<Longrightarrow>
   memberId_issues V memberId = [] \<Longrightarrow>
   fst (updateMemberRoleMutation V e memberId Member s) = Inr ()"
  by (auto simp: updateMemberRoleMutation_def updateMemberRoleSchema_def gate_defs
      update_member_role_def)

lemma remove_unchanged:
  "\<not> isOwner e \<Longrightarrow> \<not> isAdmin e s \<Longrightarrow> snd (removeUserMutation e userId s) = s"
  by (simp add: removeUserMutation_def removeUserSchema_def gate_defs)

lemma remove_unauth:
  "\<not> isOwner e \<Longrightarrow> \<not> isAdmin e s \<Longrightarrow> \<not> storeFails e 0 \<Longrightarrow>
   removeUserMutation e userId s = (Inl notAdmin, s)"
  by (simp add: removeUserMutation_def removeUserSchema_def gate_defs)

lemma remove_gate:
  "isOwner e \<or> isAdmin e s \<Longrightarrow> \<not> denied (removeUserMutation e userId s)"
  by (auto simp: removeUserMutation_def removeUserSchema_def gate_defs delete_member_def)

lemma remove_ok:
  "isOwner e \<or> isAdmin e s \<Longrightarrow> \<not> storeFails e 0 \<Longrightarrow> \<not> storeFails e 1 \<Longrightarrow>
   fst (removeUserMutation e userId s) = Inr ()"
  by (auto simp: removeUserMutation_def removeUserSchema_def gate_defs delete_member_def)

lemma decline_unchanged:
  "\<not> isOwner e \<Longrightarrow> \<not> isAdmin e s \<Longrightarrow> snd (declineOrgRequestMutation e requestId s) = s"
  by (simp add: declineOrgRequestMutation_def declineOrgRequestSchema_def gate_defs)

lemma decline_unauth:
  "\<not> isOwner e \<Longrightarrow> \<not> isAdmin e s \<Longrightarrow> \<not> storeFails e 0 \<Longrightarrow>
   declineOrgRequestMutation e requestId s = (Inl notAdmin, s)"
  by (simp add: declineOrgRequestMutation_def declineOrgRequestSchema_def gate_defs)

lemma decline_gate:
  "isOwner e \<or> isAdmin e s \<Longrightarrow> \<not> denied (declineOrgRequestMutation e requestId s)"
  by (auto simp: declineOrgRequestMutation_def declineOrgRequestSchema_def gate_defs
      delete_request_def)

lemma decline_ok:
  "isOwner e \<or> isAdmin e s \<Longrightarrow> \<not> storeFails e 0 \<Longrightarrow> \<not> storeFails e 1 \<Longrightarrow>
   declineOrgRequestMutation e requestId s =
     (Inr (), s\<lparr>orgRequests := filter (\<lambda>r. req_id r \<noteq> requestId) (orgRequests s)\<rparr>)"
  by (auto simp: declineOrgRequestMutation_def declineOrgRequestSchema_def gate_defs
      delete_request_def)

lemmas sample_defs = acceptAll_def acme_def globex_def store0_def as_caller_def failing_at_def

text \<open>
  Claim C1. A caller who is not the owner of the current organization cannot delete it and
  cannot give a member the role \<open>Admin\<close>: \<open>deleteOrgMutation\<close> throws
  "You are not the owner of this organization" and so does \<open>updateMemberRoleMutation\<close> with
  the role \<open>Admin\<close>, once its payload has passed the schema and the lookup of the caller's
  row has returned, which both precede the owner test; the store is left as it was in every
  case, whatever membership rows the caller holds. For the owner neither mutation is
  denied, and both perform their store call.
\<close>

theorem C1_owner_only:
  "(\<not> isOwner e \<longrightarrow>
      deleteOrgMutation e s = (Inl notOwner, s)
      \<and> snd (updateMemberRoleMutation V e memberId Admin s) = s
      \<and> (memberId_issues V memberId = [] \<and> \<not> storeFails e 0 \<longrightarrow>
           updateMemberRoleMutation V e memberId Admin s = (Inl notOwner, s)))
   \<and> NotAuthorized notOwner
   \<and> (isOwner e \<longrightarrow>
        \<not> denied (deleteOrgMutation e s)
        \<and> \<not> denied (updateMemberRoleMutation V e memberId Admin s)
        \<and> (\<not> storeFails e 0 \<longrightarrow>
             deleteOrgMutation e s =
               (Inr (),
                \<lparr>organizations =
                   filter (\<lambda>org. org_id org \<noteq> org_id (currentOrg e)) (organizations s),
                 membersToOrganizations =
                   filter (\<lambda>m. mto_organizationId m \<noteq> org_id (currentOrg e))
                          (membersToOrganizations s),
                 orgRequests =
                   filter (\<lambda>r. req_organizationId r \<noteq> org_id (currentOrg e)) (orgRequests s)\<rparr>))
        \<and> (memberId_issues V memberId = [] \<and> \<not> storeFails e 0 \<and> \<not> storeFails e 1 \<longrightarrow>
             updateMemberRoleMutation V e memberId Admin s =
               (Inr (),
                s\<lparr>membersToOrganizations :=
                    map (\<lambda>m. if mto_memberId m = memberId
                                 \<and> mto_organizationId m = org_id (currentOrg e)
                              then m\<lparr>mto_role := Admin\<rparr> else m)
                        (membersToOrganizations s)\<rparr>)))"
proof -
  have non_owner: "\<not> isOwner e \<longrightarrow>
      deleteOrgMutation e s = (Inl notOwner, s)
      \<and> snd (updateMemberRoleMutation V e memberId Admin s) = s
      \<and> (memberId_issues V memberId = [] \<and> \<not> storeFails e 0 \<longrightarrow>
           updateMemberRoleMutation V e memberId Admin s = (Inl notOwner, s))"
    using delete_unauth role_admin_unchanged role_admin_unauth by blast
  have owner: "isOwner e \<longrightarrow>
        \<not> denied (deleteOrgMutation e s)
        \<and> \<not> denied (updateMemberRoleMutation V e memberId Admin s)"
    using delete_owner role_owner by blast
  show ?thesis
    using non_owner owner delete_owner_ok [of e s] role_owner_ok [of e V memberId Admin s]
    by simp
qed

theorem C1_owner_only_witness:
  "\<not> isOwner (as_caller ''adam'' acme) \<and> isAdmin (as_caller ''adam'' acme) store0
   \<and> deleteOrgMutation (as_caller ''adam'' acme) store0 = (Inl notOwner, store0)
   \<and> updateMemberRoleMutation acceptAll (as_caller ''adam'' acme) ''mia'' Admin store0
       = (Inl notOwner, store0)
   \<and> isOwner (as_caller ''olivia'' acme)
   \<and> deleteOrgMutation (as_caller ''olivia'' acme) store0 =
       (Inr (),
        \<lparr>organizations = [globex],
         membersToOrganizations =
           [\<lparr>mto_memberId = ''greta'', mto_organizationId = ''org-b'', mto_role = Admin\<rparr>],
         orgRequests =
           [\<lparr>req_id = ''req-2'', req_userId = ''paul'', req_organizationId = ''org-b''\<rparr>]\<rparr>)
   \<and> fst (updateMemberRoleMutation acceptAll (as_caller ''olivia'' acme) ''mia'' Admin store0)
       = Inr ()"
  using C1_owner_only [of "as_caller ''adam'' acme" store0 acceptAll "''mia''"]
        C1_owner_only [of "as_caller ''olivia'' acme" store0 acceptAll "''mia''"]
  by (simp add: sample_defs isOwner_def isAdmin_def)

text \<open>
  Claim C2. A caller who is neither the owner of the current organization nor the holder of
  an \<open>Admin\<close> row for it changes nothing through \<open>updateOrgNameMutation\<close>,
  \<open>updateOrgImageMutation\<close>, \<open>updateMemberRoleMutation\<close> to \<open>Member\<close>,
  \<open>removeUserMutation\<close> and \<open>declineOrgRequestMutation\<close>; each of them throws
  "You are not an admin of this organization" once the payload has passed its schema and
  the lookup of the caller's row has returned, the two steps that precede the test.
  Conversely a caller who is the owner or holds an \<open>Admin\<close> row is never denied by any of
  the five, and with a valid payload and a store that answers, each of them succeeds.
\<close>

theorem C2_privileged_gate:
  "(\<not> isOwner e \<and> \<not> isAdmin e s \<longrightarrow>
      snd (updateOrgNameMutation e name s) = s
      \<and> snd (updateOrgImageMutation V e img s) = s
      \<and> snd (updateMemberRoleMutation V e memberId Member s) = s
      \<and> snd (removeUserMutation e userId s) = s
      \<and> snd (declineOrgRequestMutation e requestId s) = s
      \<and> (\<not> storeFails e 0 \<longrightarrow>
           (name_issues name = [] \<longrightarrow> updateOrgNameMutation e name s = (Inl notAdmin, s))
           \<and> (isUrl V img \<longrightarrow> updateOrgImageMutation V e img s = (Inl notAdmin, s))
           \<and> (memberId_issues V memberId = [] \<longrightarrow>
                updateMemberRoleMutation V e memberId Member s = (Inl notAdmin, s))
           \<and> removeUserMutation e userId s = (Inl notAdmin, s)
           \<and> declineOrgRequestMutation e requestId s = (Inl notAdmin, s)))
   \<and> NotAuthorized notAdmin
   \<and> (isOwner e \<or> isAdmin e s \<longrightarrow>
        \<not> denied (updateOrgNameMutation e name s)
        \<and> \<not> denied (updateOrgImageMutation V e img s)
        \<and> \<not> denied (updateMemberRoleMutation V e memberId Member s)
        \<and> \<not> denied (removeUserMutation e userId s)
        \<and> \<not> denied (declineOrgRequestMutation e requestId s)
        \<and> (\<not> storeFails e 0 \<and> \<not> storeFails e 1 \<longrightarrow>
             (name_issues name = [] \<longrightarrow> fst (updateOrgNameMutation e name s) = Inr ())
             \<and> (isUrl V img \<longrightarrow> fst (updateOrgImageMutation V e img s) = Inr ())
             \<and> (memberId_issues V memberId = [] \<longrightarrow>
                  fst (updateMemberRoleMutation V e memberId Member s) = Inr ())
             \<and> fst (removeUserMutation e userId s) = Inr ()
             \<and> fst (declineOrgRequestMutation e requestId s) = Inr ()))"
proof -
  have unchanged: "\<not> isOwner e \<and> \<not> isAdmin e s \<longrightarrow>
      snd (updateOrgNameMutation e name s) = s
      \<and> snd (updateOrgImageMutation V e img s) = s
      \<and> snd (updateMemberRoleMutation V e memberId Member s) = s
      \<and> snd (removeUserMutation e userId s) = s
      \<and> snd (declineOrgRequestMutation e requestId s) = s"
    by (simp add: rename_unchanged reimage_unchanged demote_unchanged remove_unchanged
        decline_unchanged)
  have unauth: "\<not> isOwner e \<and> \<not> isAdmin e s \<longrightarrow> \<not> storeFails e 0 \<longrightarrow>
           (name_issues name = [] \<longrightarrow> updateOrgNameMutation e name s = (Inl notAdmin, s))
           \<and> (isUrl V img \<longrightarrow> updateOrgImageMutation V e img s = (Inl notAdmin, s))
           \<and> (memberId_issues V memberId = [] \<longrightarrow>
                updateMemberRoleMutation V e memberId Member s = (Inl notAdmin, s))
           \<and> removeUserMutation e userId s = (Inl notAdmin, s)
           \<and> declineOrgRequestMutation e requestId s = (Inl notAdmin, s)"
    by (simp add: rename_unauth reimage_unauth demote_unauth remove_unauth decline_unauth)
  have gate: "isOwner e \<or> isAdmin e s \<longrightarrow>
        \<not> denied (updateOrgNameMutation e name s)
        \<and> \<not> denied (updateOrgImageMutation V e img s)
        \<and> \<not> denied (updateMemberRoleMutation V e memberId Member s)
        \<and> \<not> denied (removeUserMutation e userId s)
        \<and> \<not> denied (declineOrgRequestMutation e requestId s)"
    using rename_gate reimage_gate demote_gate remove_gate decline_gate by blast
  have ok: "isOwner e \<or> isAdmin e s \<longrightarrow> \<not> storeFails e 0 \<and> \<not> storeFails e 1 \<longrightarrow>
             (name_issues name = [] \<longrightarrow> fst (updateOrgNameMutation e name s) = Inr ())
             \<and> (isUrl V img \<longrightarrow> fst (updateOrgImageMutation V e img s) = Inr ())
             \<and> (memberId_issues V memberId = [] \<longrightarrow>
                  fst (updateMemberRoleMutation V e memberId Member s) = Inr ())
             \<and> fst (removeUserMutation e userId s) = Inr ()
             \<and> fst (declineOrgRequestMutation e requestId s) = Inr ()"
    using rename_ok [of e s name] reimage_ok [of e s V img] demote_ok [of e s V memberId]
      remove_ok [of e s userId] decline_ok [of e s requestId]
    by simp
  from unchanged unauth gate ok show ?thesis
    by (simp only: NotAuthorized_simps2) blast
qed

theorem C2_privileged_gate_witness:
  "\<not> isOwner (as_caller ''mia'' acme) \<and> \<not> isAdmin (as_caller ''mia'' acme) store0
   \<and> updateOrgNameMutation (as_caller ''mia'' acme) ''Mia Corp'' store0 = (Inl notAdmin, store0)
   \<and> updateOrgImageMutation acceptAll (as_caller ''mia'' acme) ''https://m.example/m.png'' store0
       = (Inl notAdmin, store0)
   \<and> updateMemberRoleMutation acceptAll (as_caller ''mia'' acme) ''adam'' Member store0
       = (Inl notAdmin, store0)
   \<and> removeUserMutation (as_caller ''mia'' acme) ''adam'' store0 = (Inl notAdmin, store0)
   \<and> declineOrgRequestMutation (as_caller ''mia'' acme) ''req-1'' store0 = (Inl notAdmin, store0)
   \<and> \<not> isOwner (as_caller ''adam'' acme) \<and> isAdmin (as_caller ''adam'' acme) store0
   \<and> fst (updateOrgNameMutation (as_caller ''adam'' acme) ''Mia Corp'' store0) = Inr ()
   \<and> fst (updateOrgImageMutation acceptAll (as_caller ''adam'' acme) ''https://m.example/m.png''
            store0) = Inr ()
   \<and> fst (updateMemberRoleMutation acceptAll (as_caller ''adam'' acme) ''adam'' Member store0)
       = Inr ()
   \<and> fst (removeUserMutation (as_caller ''adam'' acme) ''adam'' store0) = Inr ()
   \<and> fst (declineOrgRequestMutation (as_caller ''adam'' acme) ''req-1'' store0) = Inr ()"
  using C2_privileged_gate [of "as_caller ''mia'' acme" store0 "''Mia Corp''" acceptAll
          "''https://m.example/m.png''" "''adam''" "''adam''" "''req-1''"]
        C2_privileged_gate [of "as_caller ''adam'' acme" store0 "''Mia Corp''" acceptAll
          "''https://m.example/m.png''" "''adam''" "''adam''" "''req-1''"]
  by (simp add: sample_defs isOwner_def isAdmin_def name_issues_def)

section \<open>Validation of the name\<close>

lemma name_issues_nonempty:
  "length name < 3 \<or> 50 < length name \<Longrightarrow> name_issues name \<noteq> []"
  by (auto simp: name_issues_def)

lemma name_issues_path: "i \<in> set (name_issues name) \<Longrightarrow> fst i = ''name''"
  by (auto simp: name_issues_def split: if_splits)

text \<open>
  Claim C8. A name shorter than 3 or longer than 50 makes \<open>createOrgMutation\<close> and
  \<open>updateOrgNameMutation\<close> throw "Invalid organization data" with the issues of the
  schema as its cause, among them at least one on the field \<open>name\<close>, and the store is
  left as it was. The cause of \<open>createOrgMutation\<close> also lists the issue on the field
  \<open>image\<close> when the image is not a URL.
\<close>

theorem C8_invalid_name_rejected:
  assumes "length name < 3 \<or> 50 < length name"
  shows "createOrgMutation V e name img s =
           (Inl (Error ''Invalid organization data''
                   (Some (name_issues name @ image_issues V img @ ownerId_issues V (user e)))), s)
       \<and> updateOrgNameMutation e name s =
           (Inl (Error ''Invalid organization data'' (Some (name_issues name))), s)
       \<and> ValidationError (Error ''Invalid organization data'' (Some (name_issues name)))
       \<and> ValidationError (Error ''Invalid organization data''
             (Some (name_issues name @ image_issues V img @ ownerId_issues V (user e))))
       \<and> name_issues name \<noteq> [] \<and> (\<forall>i \<in> set (name_issues name). fst i = ''name'')"
  using name_issues_nonempty [OF assms] name_issues_path
  by (simp add: createOrgMutation_def updateOrgNameMutation_def createOrgSchema_def
      updateOrgNameSchema_def Let_def)

theorem C8_invalid_name_rejected_witness:
  "(length ''ab'' < 3 \<or> 50 < length ''ab'')
   \<and> createOrgMutation acceptAll (as_caller ''olivia'' acme) ''ab'' ''https://acme.example/a.png''
        store0
       = (Inl (Error ''Invalid organization data''
                 (Some [(''name'', ''Name must be at least 3 characters long'')])), store0)
   \<and> updateOrgNameMutation (as_caller ''olivia'' acme) ''ab'' store0
       = (Inl (Error ''Invalid organization data''
                 (Some [(''name'', ''Name must be at least 3 characters long'')])), store0)
   \<and> createOrgMutation httpsOnly (as_caller ''olivia'' acme) ''ab'' ''not a url'' store0
       = (Inl (Error ''Invalid organization data''
                 (Some [(''name'', ''Name must be at least 3 characters long''),
                        (''image'', ''Invalid image URL'')])), store0)
   \<and> (length (replicate 51 CHR ''x'') < 3 \<or> 50 < length (replicate 51 CHR ''x''))
   \<and> updateOrgNameMutation (as_caller ''olivia'' acme) (replicate 51 CHR ''x'') store0
       = (Inl (Error ''Invalid organization data''
                 (Some [(''name'', ''Name must be at most 50 characters long'')])), store0)"
  using C8_invalid_name_rejected [of "''ab''" acceptAll "as_caller ''olivia'' acme"
          "''https://acme.example/a.png''" store0]
        C8_invalid_name_rejected [of "''ab''" httpsOnly "as_caller ''olivia'' acme"
          "''not a url''" store0]
        C8_invalid_name_rejected [of "replicate 51 CHR ''x''" acceptAll "as_caller ''olivia'' acme"
          "''https://acme.example/a.png''" store0]
  by (simp add: name_issues_def image_issues_def acceptAll_def httpsOnly_def as_caller_def)

section \<open>Join requests: missing rows and decline\<close>

lemma find_absent: "\<forall>x \<in> set xs. \<not> P x \<Longrightarrow> find P xs = None"
  by (induction xs) simp_all

lemma filter_absent: "\<forall>x \<in> set xs. P x \<Longrightarrow> filter P xs = xs"
  by (induction xs) simp_all

text \<open>
  Claim C5. When the owner or an admin of the current organization accepts a request id
  that no row of \<open>orgRequests\<close> carries, and the two lookups return, the mutation throws
  "Request not found" and the store is left as it was: no membership row is created and
  nothing is deleted.
\<close>

theorem C5_accept_missing_request:
  assumes "isOwner e \<or> isAdmin e s"
    and "\<forall>r \<in> set (orgRequests s). req_id r \<noteq> requestId"
    and "\<not> storeFails e 0" and "\<not> storeFails e 1"
  shows "acceptOrgRequestMutation e requestId s = (Inl requestNotFound, s)
         \<and> NotFound requestNotFound"
proof -
  have "find (\<lambda>r. req_id r = requestId) (orgRequests s) = None"
    using assms(2) by (simp add: find_absent)
  then show ?thesis
    using assms(1,3,4)
    by (auto simp: acceptOrgRequestMutation_def acceptOrgRequestSchema_def gate_defs
        find_request_def requestNotFound_def)
qed

theorem C5_accept_missing_request_witness:
  "(isOwner (as_caller ''adam'' acme) \<or> isAdmin (as_caller ''adam'' acme) store0)
   \<and> ''req-9'' \<notin> set (map req_id (orgRequests store0))
   \<and> acceptOrgRequestMutation (as_caller ''adam'' acme) ''req-9'' store0
       = (Inl requestNotFound, store0)"
  using C5_accept_missing_request [of "as_caller ''adam'' acme" store0 "''req-9''"]
  by (simp add: sample_defs isOwner_def isAdmin_def)

lemma decline_members:
  "membersToOrganizations (snd (declineOrgRequestMutation e requestId s))
     = membersToOrganizations s"
  by (simp add: declineOrgRequestMutation_def declineOrgRequestSchema_def
      find_admin_membership_def delete_request_def)

text \<open>
  Claim C7. \<open>declineOrgRequestMutation\<close> never touches the membership table. Called by
  the owner or an admin of the current organization with a store that answers, it succeeds
  and removes the rows of \<open>orgRequests\<close> with the given id and no other row; when no row
  has that id it succeeds all the same and leaves the store as it was, where
  \<open>acceptOrgRequestMutation\<close> throws "Request not found".
\<close>

theorem C7_decline:
  "membersToOrganizations (snd (declineOrgRequestMutation e requestId s))
     = membersToOrganizations s
   \<and> ((isOwner e \<or> isAdmin e s) \<and> \<not> storeFails e 0 \<and> \<not> storeFails e 1 \<longrightarrow>
        declineOrgRequestMutation e requestId s =
          (Inr (), s\<lparr>orgRequests := filter (\<lambda>r. req_id r \<noteq> requestId) (orgRequests s)\<rparr>)
        \<and> ((\<forall>r \<in> set (orgRequests s). req_id r \<noteq> requestId) \<longrightarrow>
             declineOrgRequestMutation e requestId s = (Inr (), s)
             \<and> acceptOrgRequestMutation e requestId s = (Inl requestNotFound, s)))"
proof -
  have absent: "declineOrgRequestMutation e requestId s = (Inr (), s)"
    if "isOwner e \<or> isAdmin e s" "\<not> storeFails e 0" "\<not> storeFails e 1"
      "\<forall>r \<in> set (orgRequests s). req_id r \<noteq> requestId"
  proof -
    have "filter (\<lambda>r. req_id r \<noteq> requestId) (orgRequests s) = orgRequests s"
      using that(4) by (simp add: filter_absent)
    then show ?thesis
      using decline_ok [OF that(1-3), of requestId] by simp
  qed
  have accept_absent: "acceptOrgRequestMutation e requestId s = (Inl requestNotFound, s)"
    if "isOwner e \<or> isAdmin e s" "\<not> storeFails e 0" "\<not> storeFails e 1"
      "\<forall>r \<in> set (orgRequests s). req_id r \<noteq> requestId"
  proof -
    have "find (\<lambda>r. req_id r = requestId) (orgRequests s) = None"
      using that(4) by (simp add: find_absent)
    then show ?thesis
      using that(1-3)
      by (auto simp: acceptOrgRequestMutation_def acceptOrgRequestSchema_def gate_defs
          find_request_def)
  qed
  show ?thesis
    using decline_members [of e requestId s] decline_ok [of e s requestId] absent accept_absent
    by blast
qed

theorem C7_decline_witness:
  "(isOwner (as_caller ''olivia'' acme) \<or> isAdmin (as_caller ''olivia'' acme) store0)
   \<and> declineOrgRequestMutation (as_caller ''olivia'' acme) ''req-1'' store0 =
       (Inr (), store0\<lparr>orgRequests :=
          [\<lparr>req_id = ''req-2'', req_userId = ''paul'', req_organizationId = ''org-b''\<rparr>]\<rparr>)
   \<and> ''req-9'' \<notin> set (map req_id (orgRequests store0))
   \<and> declineOrgRequestMutation (as_caller ''olivia'' acme) ''req-9'' store0 = (Inr (), store0)
   \<and> acceptOrgRequestMutation (as_caller ''olivia'' acme) ''req-9'' store0
       = (Inl requestNotFound, store0)"
  using C7_decline [of "as_caller ''olivia'' acme" "''req-1''" store0]
        C7_decline [of "as_caller ''olivia'' acme" "''req-9''" store0]
  by (simp add: sample_defs isOwner_def isAdmin_def)

text \<open>
  Claim C10. \<open>declineOrgRequestMutation\<close> selects the row to delete by its id alone: the
  owner or an admin of the current organization removes any row of \<open>orgRequests\<close>,
  whichever organization the row names, provided the store answers.
\<close>

theorem C10_decline_any_organization:
  assumes "isOwner e \<or> isAdmin e s"
    and "R \<in> set (orgRequests s)"
    and "\<not> storeFails e 0" and "\<not> storeFails e 1"
  shows "declineOrgRequestMutation e (req_id R) s =
           (Inr (), s\<lparr>orgRequests := filter (\<lambda>r. req_id r \<noteq> req_id R) (orgRequests s)\<rparr>)
         \<and> R \<notin> set (orgRequests (snd (declineOrgRequestMutation e (req_id R) s)))"
  using decline_ok [OF assms(1,3,4), of "req_id R"] by simp

theorem C10_decline_any_organization_witness:
  "(isOwner (as_caller ''adam'' acme) \<or> isAdmin (as_caller ''adam'' acme) store0)
   \<and> \<lparr>req_id = ''req-2'', req_userId = ''paul'', req_organizationId = ''org-b''\<rparr>
       \<in> set (orgRequests store0)
   \<and> ''org-b'' \<noteq> org_id (currentOrg (as_caller ''adam'' acme))
   \<and> declineOrgRequestMutation (as_caller ''adam'' acme) ''req-2'' store0 =
       (Inr (), store0\<lparr>orgRequests :=
          [\<lparr>req_id = ''req-1'', req_userId = ''nora'', req_organizationId = ''org-a''\<rparr>]\<rparr>)"
  using C10_decline_any_organization [of "as_caller ''adam'' acme" store0
          "\<lparr>req_id = ''req-2'', req_userId = ''paul'', req_organizationId = ''org-b''\<rparr>"]
  by (simp add: sample_defs isOwner_def isAdmin_def)

section \<open>Creation of an organization\<close>

lemma create_success:
  assumes "createOrgMutation V e name img s = (Inr org, s')"
  shows "org = \<lparr>org_id = generatedId e, org_name = name, org_image = img,
                 org_ownerId = user e\<rparr>
         \<and> organizations s' = organizations s @ [org]
         \<and> membersToOrganizations s' = membersToOrganizations s @
              [\<lparr>mto_memberId = user e, mto_organizationId = generatedId e, mto_role = Admin\<rparr>]
         \<and> orgRequests s' = orgRequests s
         \<and> memberships_of (user e) (generatedId e) s = []"
  using assms
  by (auto simp: createOrgMutation_def createOrgSchema_def insert_organization_def
      insert_member_def memberships_of_def Let_def filter_empty_conv
      split: sum.splits if_splits)

lemma create_ok:
  assumes "name_issues name = []" "isUrl V img" "ownerId_issues V (user e) = []"
    and "\<not> storeFails e 0" "\<not> storeFails e 1"
    and "\<forall>org \<in> set (organizations s). org_id org \<noteq> generatedId e"
    and "memberships_of (user e) (generatedId e) s = []"
  shows "createOrgMutation V e name img s =
           (Inr \<lparr>org_id = generatedId e, org_name = name, org_image = img, org_ownerId = user e\<rparr>,
            s\<lparr>organizations := organizations s @
                 [\<lparr>org_id = generatedId e, org_name = name, org_image = img,
                   org_ownerId = user e\<rparr>],
               membersToOrganizations := membersToOrganizations s @
                 [\<lparr>mto_memberId = user e, mto_organizationId = generatedId e,
                   mto_role = Admin\<rparr>]\<rparr>)"
  using assms
  by (auto simp: createOrgMutation_def createOrgSchema_def insert_organization_def
      insert_member_def memberships_of_def Let_def filter_empty_conv image_issues_def)

lemma create_second_insert_fails:
  assumes "name_issues name = []" "isUrl V img" "ownerId_issues V (user e) = []"
    and "\<not> storeFails e 0" "storeFails e 1"
    and "\<forall>org \<in> set (organizations s). org_id org \<noteq> generatedId e"
  shows "createOrgMutation V e name img s =
           (Inl StoreFailure,
            s\<lparr>organizations := organizations s @
                 [\<lparr>org_id = generatedId e, org_name = name, org_image = img,
                   org_ownerId = user e\<rparr>]\<rparr>)"
  using assms
  by (auto simp: createOrgMutation_def createOrgSchema_def insert_organization_def
      insert_member_def Let_def image_issues_def)

text \<open>
  Claim C3, as the code has it. A call of \<open>createOrgMutation\<close> that returns leaves the new
  organization row in the store together with exactly one membership row for its owner,
  with the role \<open>Admin\<close>, and such a call exists whenever the payload is valid, the store
  answers, the generated id is new and no membership row is in its way. The two rows are
  written by two successive inserts outside any transaction: when the second insert
  rejects, the mutation throws and the organization row stays in the store without a
  membership row written for its owner.
\<close>

theorem C3_create_rows:
  "(createOrgMutation V e name img s = (Inr org, s') \<longrightarrow>
      org = \<lparr>org_id = generatedId e, org_name = name, org_image = img, org_ownerId = user e\<rparr>
      \<and> organizations s' = organizations s @ [org]
      \<and> membersToOrganizations s' = membersToOrganizations s @
           [\<lparr>mto_memberId = user e, mto_organizationId = org_id org, mto_role = Admin\<rparr>]
      \<and> memberships_of (user e) (org_id org) s' =
           [\<lparr>mto_memberId = user e, mto_organizationId = org_id org, mto_role = Admin\<rparr>]
      \<and> orgRequests s' = orgRequests s)
   \<and> (name_issues name = [] \<and> isUrl V img \<and> ownerId_issues V (user e) = []
       \<and> \<not> storeFails e 0 \<and> (\<forall>org \<in> set (organizations s). org_id org \<noteq> generatedId e) \<longrightarrow>
        (\<not> storeFails e 1 \<and> memberships_of (user e) (generatedId e) s = [] \<longrightarrow>
           fst (createOrgMutation V e name img s) =
             Inr \<lparr>org_id = generatedId e, org_name = name, org_image = img,
                  org_ownerId = user e\<rparr>)
        \<and> (storeFails e 1 \<longrightarrow>
             createOrgMutation V e name img s =
               (Inl StoreFailure,
                s\<lparr>organizations := organizations s @
                     [\<lparr>org_id = generatedId e, org_name = name, org_image = img,
                       org_ownerId = user e\<rparr>]\<rparr>)))"
proof -
  have success: "org = \<lparr>org_id = generatedId e, org_name = name, org_image = img,
                         org_ownerId = user e\<rparr>
      \<and> organizations s' = organizations s @ [org]
      \<and> membersToOrganizations s' = membersToOrganizations s @
           [\<lparr>mto_memberId = user e, mto_organizationId = org_id org, mto_role = Admin\<rparr>]
      \<and> memberships_of (user e) (org_id org) s' =
           [\<lparr>mto_memberId = user e, mto_organizationId = org_id org, mto_role = Admin\<rparr>]
      \<and> orgRequests s' = orgRequests s"
    if run: "createOrgMutation V e name img s = (Inr org, s')"
  proof -
    note facts = create_success [OF run]
    have "memberships_of (user e) (generatedId e) s' =
            memberships_of (user e) (generatedId e) s @
            [\<lparr>mto_memberId = user e, mto_organizationId = generatedId e, mto_role = Admin\<rparr>]"
      using facts by (simp add: memberships_of_def)
    then show ?thesis
      using facts by simp
  qed
  have returns: "fst (createOrgMutation V e name img s) =
             Inr \<lparr>org_id = generatedId e, org_name = name, org_image = img,
                  org_ownerId = user e\<rparr>"
    if "name_issues name = []" "isUrl V img" "ownerId_issues V (user e) = []"
      "\<not> storeFails e 0" "\<forall>org \<in> set (organizations s). org_id org \<noteq> generatedId e"
      "\<not> storeFails e 1" "memberships_of (user e) (generatedId e) s = []"
    using create_ok [OF that(1-4) that(6) that(5) that(7)] by simp
  show ?thesis
    using success returns create_second_insert_fails [of name V img e s] by blast
qed

theorem C3_create_rows_witness:
  "createOrgMutation acceptAll (as_caller ''nora'' acme) ''Initech''
       ''https://initech.example/i.png'' store0 =
     (Inr \<lparr>org_id = ''fresh-1'', org_name = ''Initech'',
           org_image = ''https://initech.example/i.png'', org_ownerId = ''nora''\<rparr>,
      store0\<lparr>organizations := organizations store0 @
                [\<lparr>org_id = ''fresh-1'', org_name = ''Initech'',
                  org_image = ''https://initech.example/i.png'', org_ownerId = ''nora''\<rparr>],
              membersToOrganizations := membersToOrganizations store0 @
                [\<lparr>mto_memberId = ''nora'', mto_organizationId = ''fresh-1'',
                  mto_role = Admin\<rparr>]\<rparr>)
   \<and> memberships_of ''nora'' ''fresh-1''
        (snd (createOrgMutation acceptAll (as_caller ''nora'' acme) ''Initech''
                ''https://initech.example/i.png'' store0)) =
       [\<lparr>mto_memberId = ''nora'', mto_organizationId = ''fresh-1'', mto_role = Admin\<rparr>]
   \<and> storeFails (failing_at 1 (as_caller ''nora'' acme)) 1
   \<and> createOrgMutation acceptAll (failing_at 1 (as_caller ''nora'' acme)) ''Initech''
         ''https://initech.example/i.png'' store0 =
       (Inl StoreFailure,
        store0\<lparr>organizations := organizations store0 @
                  [\<lparr>org_id = ''fresh-1'', org_name = ''Initech'',
                    org_image = ''https://initech.example/i.png'', org_ownerId = ''nora''\<rparr>]\<rparr>)"
proof -
  have run: "createOrgMutation acceptAll (as_caller ''nora'' acme) ''Initech''
       ''https://initech.example/i.png'' store0 =
     (Inr \<lparr>org_id = ''fresh-1'', org_name = ''Initech'',
           org_image = ''https://initech.example/i.png'', org_ownerId = ''nora''\<rparr>,
      store0\<lparr>organizations := organizations store0 @
                [\<lparr>org_id = ''fresh-1'', org_name = ''Initech'',
                  org_image = ''https://initech.example/i.png'', org_ownerId = ''nora''\<rparr>],
              membersToOrganizations := membersToOrganizations store0 @
                [\<lparr>mto_memberId = ''nora'', mto_organizationId = ''fresh-1'',
                  mto_role = Admin\<rparr>]\<rparr>)"
    by (simp add: createOrgMutation_def createOrgSchema_def insert_organization_def
        insert_member_def name_issues_def image_issues_def Let_def sample_defs)
  show ?thesis
    using run C3_create_rows [of acceptAll "as_caller ''nora'' acme" "''Initech''"
        "''https://initech.example/i.png''" store0
        "\<lparr>org_id = ''fresh-1'', org_name = ''Initech'',
           org_image = ''https://initech.example/i.png'', org_ownerId = ''nora''\<rparr>"
        "store0\<lparr>organizations := organizations store0 @
                [\<lparr>org_id = ''fresh-1'', org_name = ''Initech'',
                  org_image = ''https://initech.example/i.png'', org_ownerId = ''nora''\<rparr>],
              membersToOrganizations := membersToOrganizations store0 @
                [\<lparr>mto_memberId = ''nora'', mto_organizationId = ''fresh-1'',
                  mto_role = Admin\<rparr>]\<rparr>"]
      C3_create_rows [of acceptAll "failing_at 1 (as_caller ''nora'' acme)" "''Initech''"
        "''https://initech.example/i.png''" store0 acme store0]
    by (simp add: sample_defs name_issues_def)
qed

text \<open>
  Claim C3 as the spec states it fails: when the second insert rejects, the organization
  row written by the first insert is in the store and no membership row of its owner is.
\<close>

theorem C3_counterexample:
  "createOrgMutation acceptAll (failing_at 1 (as_caller ''nora'' acme)) ''Initech''
       ''https://initech.example/i.png'' store0 =
     (Inl StoreFailure,
      \<lparr>organizations =
         [acme, globex,
          \<lparr>org_id = ''fresh-1'', org_name = ''Initech'',
            org_image = ''https://initech.example/i.png'', org_ownerId = ''nora''\<rparr>],
       membersToOrganizations = membersToOrganizations store0,
       orgRequests = orgRequests store0\<rparr>)
   \<and> memberships_of ''nora'' ''fresh-1''
        (snd (createOrgMutation acceptAll (failing_at 1 (as_caller ''nora'' acme)) ''Initech''
                ''https://initech.example/i.png'' store0)) = []"
  by (simp add: createOrgMutation_def createOrgSchema_def insert_organization_def
      insert_member_def name_issues_def image_issues_def Let_def sample_defs memberships_of_def)

section \<open>Acceptance of a join request\<close>

lemma filter_remove1:
  "distinct (map f xs) \<Longrightarrow> find (\<lambda>x. f x = k) xs = Some r
   \<Longrightarrow> filter (\<lambda>x. f x \<noteq> k) xs = remove1 r xs"
proof (induction xs)
  case Nil
  then show ?case by simp
next
  case (Cons x xs)
  show ?case
  proof (cases "f x = k")
    case True
    with Cons.prems have "r = x" and "\<forall>y \<in> set xs. f y \<noteq> k"
      by (auto simp: image_iff)
    then show ?thesis
      using True by (simp add: filter_absent)
  next
    case False
    with Cons.prems have "find (\<lambda>x. f x = k) xs = Some r" and "distinct (map f xs)"
      by auto
    moreover from this have "f r = k"
      by (auto simp: find_Some_iff)
    ultimately show ?thesis
      using False Cons.IH by auto
  qed
qed

lemma find_Some_member: "find P xs = Some r \<Longrightarrow> r \<in> set xs \<and> P r"
  by (auto simp: find_Some_iff)

lemma accept_success:
  assumes "acceptOrgRequestMutation e requestId s = (Inr (), s')"
  shows "\<exists>r. find (\<lambda>r. req_id r = requestId) (orgRequests s) = Some r
           \<and> organizations s' = organizations s
           \<and> membersToOrganizations s' = membersToOrganizations s @
                [\<lparr>mto_memberId = req_userId r, mto_organizationId = org_id (currentOrg e),
                  mto_role = Member\<rparr>]
           \<and> orgRequests s' = filter (\<lambda>q. req_id q \<noteq> requestId) (orgRequests s)
           \<and> memberships_of (req_userId r) (org_id (currentOrg e)) s = []"
  using assms
  by (auto simp: acceptOrgRequestMutation_def acceptOrgRequestSchema_def
      find_admin_membership_def find_request_def insert_member_def delete_request_def
      memberships_of_def filter_empty_conv
      split: sum.splits if_splits option.splits)

lemma accept_ok:
  assumes "isOwner e \<or> isAdmin e s"
    and "find (\<lambda>r. req_id r = requestId) (orgRequests s) = Some r"
    and "memberships_of (req_userId r) (org_id (currentOrg e)) s = []"
    and "\<not> storeFails e 0" "\<not> storeFails e 1" "\<not> storeFails e 2" "\<not> storeFails e 3"
  shows "acceptOrgRequestMutation e requestId s =
           (Inr (),
            s\<lparr>membersToOrganizations := membersToOrganizations s @
                 [\<lparr>mto_memberId = req_userId r, mto_organizationId = org_id (currentOrg e),
                   mto_role = Member\<rparr>],
               orgRequests := filter (\<lambda>q. req_id q \<noteq> requestId) (orgRequests s)\<rparr>)"
  using assms
  by (auto simp: acceptOrgRequestMutation_def acceptOrgRequestSchema_def gate_defs
      find_request_def insert_member_def delete_request_def memberships_of_def
      filter_empty_conv)

lemma accept_delete_fails:
  assumes "isOwner e \<or> isAdmin e s"
    and "find (\<lambda>r. req_id r = requestId) (orgRequests s) = Some r"
    and "memberships_of (req_userId r) (org_id (currentOrg e)) s = []"
    and "\<not> storeFails e 0" "\<not> storeFails e 1" "\<not> storeFails e 2" "storeFails e 3"
  shows "acceptOrgRequestMutation e requestId s =
           (Inl StoreFailure,
            s\<lparr>membersToOrganizations := membersToOrganizations s @
                 [\<lparr>mto_memberId = req_userId r, mto_organizationId = org_id (currentOrg e),
                   mto_role = Member\<rparr>]\<rparr>)"
  using assms
  by (auto simp: acceptOrgRequestMutation_def acceptOrgRequestSchema_def gate_defs
      find_request_def insert_member_def delete_request_def memberships_of_def
      filter_empty_conv)

text \<open>
  Claim C4, as the code has it. When the owner or an admin of the current organization
  accepts the id of an existing request, the applicant has no membership row in the
  caller's current organization and no store call rejects, \<open>acceptOrgRequestMutation\<close>
  appends exactly one membership row for the applicant, with the role \<open>Member\<close>, and
  removes the request row, the only one with that id when ids are distinct; every other
  row is kept. The insert and the delete are two successive store calls outside any
  transaction: when the delete rejects, the mutation throws, the membership row stays and
  the request row is still there.
\<close>

theorem C4_accept_rows:
  assumes "isOwner e \<or> isAdmin e s"
    and "find (\<lambda>r. req_id r = requestId) (orgRequests s) = Some r"
    and "memberships_of (req_userId r) (org_id (currentOrg e)) s = []"
    and "\<not> storeFails e 0" and "\<not> storeFails e 1" and "\<not> storeFails e 2"
  shows "(\<not> storeFails e 3 \<longrightarrow>
            acceptOrgRequestMutation e requestId s =
              (Inr (),
               s\<lparr>membersToOrganizations := membersToOrganizations s @
                    [\<lparr>mto_memberId = req_userId r, mto_organizationId = org_id (currentOrg e),
                      mto_role = Member\<rparr>],
                  orgRequests := filter (\<lambda>q. req_id q \<noteq> requestId) (orgRequests s)\<rparr>)
            \<and> (distinct (map req_id (orgRequests s)) \<longrightarrow>
                 filter (\<lambda>q. req_id q \<noteq> requestId) (orgRequests s)
                   = remove1 r (orgRequests s)))
         \<and> (storeFails e 3 \<longrightarrow>
              acceptOrgRequestMutation e requestId s =
                (Inl StoreFailure,
                 s\<lparr>membersToOrganizations := membersToOrganizations s @
                      [\<lparr>mto_memberId = req_userId r,
                        mto_organizationId = org_id (currentOrg e), mto_role = Member\<rparr>]\<rparr>))"
  using accept_ok [OF assms(1-6)] accept_delete_fails [OF assms(1-6)]
    filter_remove1 [of req_id "orgRequests s" requestId r] assms(2)
  by blast

theorem C4_accept_rows_witness:
  "(isOwner (as_caller ''adam'' acme) \<or> isAdmin (as_caller ''adam'' acme) store0)
   \<and> find (\<lambda>r. req_id r = ''req-1'') (orgRequests store0)
       = Some \<lparr>req_id = ''req-1'', req_userId = ''nora'', req_organizationId = ''org-a''\<rparr>
   \<and> memberships_of ''nora'' ''org-a'' store0 = []
   \<and> acceptOrgRequestMutation (as_caller ''adam'' acme) ''req-1'' store0 =
       (Inr (),
        store0\<lparr>membersToOrganizations := membersToOrganizations store0 @
                  [\<lparr>mto_memberId = ''nora'', mto_organizationId = ''org-a'',
                    mto_role = Member\<rparr>],
                orgRequests :=
                  [\<lparr>req_id = ''req-2'', req_userId = ''paul'',
                    req_organizationId = ''org-b''\<rparr>]\<rparr>)
   \<and> storeFails (failing_at 3 (as_caller ''adam'' acme)) 3
   \<and> acceptOrgRequestMutation (failing_at 3 (as_caller ''adam'' acme)) ''req-1'' store0 =
       (Inl StoreFailure,
        store0\<lparr>membersToOrganizations := membersToOrganizations store0 @
                  [\<lparr>mto_memberId = ''nora'', mto_organizationId = ''org-a'',
                    mto_role = Member\<rparr>]\<rparr>)"
  using C4_accept_rows [of "as_caller ''adam'' acme" store0 "''req-1''"
          "\<lparr>req_id = ''req-1'', req_userId = ''nora'', req_organizationId = ''org-a''\<rparr>"]
        C4_accept_rows [of "failing_at 3 (as_caller ''adam'' acme)" store0 "''req-1''"
          "\<lparr>req_id = ''req-1'', req_userId = ''nora'', req_organizationId = ''org-a''\<rparr>"]
  by (simp add: sample_defs isOwner_def isAdmin_def memberships_of_def)

text \<open>
  Claim C4 as the spec states it fails: when the delete of the request rejects, the
  applicant's membership row has been written and the request row is still in the store.
\<close>

theorem C4_counterexample:
  "acceptOrgRequestMutation (failing_at 3 (as_caller ''olivia'' acme)) ''req-1'' store0 =
     (Inl StoreFailure,
      \<lparr>organizations = [acme, globex],
       membersToOrganizations = membersToOrganizations store0 @
         [\<lparr>mto_memberId = ''nora'', mto_organizationId = ''org-a'', mto_role = Member\<rparr>],
       orgRequests =
         [\<lparr>req_id = ''req-1'', req_userId = ''nora'', req_organizationId = ''org-a''\<rparr>,
          \<lparr>req_id = ''req-2'', req_userId = ''paul'', req_organizationId = ''org-b''\<rparr>]\<rparr>)"
  by (simp add: acceptOrgRequestMutation_def acceptOrgRequestSchema_def
      find_admin_membership_def find_request_def insert_member_def delete_request_def
      sample_defs)

text \<open>
  Claim C9. The membership row that a returning \<open>acceptOrgRequestMutation\<close> has written
  names the applicant of the request and the caller's current organization, never the
  organization stored on the request. So when the owner or an admin of the current
  organization accepts a request addressed to another organization, the applicant
  becomes a member of the caller's organization and the request row of the other
  organization is removed.
\<close>

theorem C9_accept_current_organization:
  "(acceptOrgRequestMutation e requestId s = (Inr (), s') \<longrightarrow>
      (\<exists>r. find (\<lambda>r. req_id r = requestId) (orgRequests s) = Some r
          \<and> membersToOrganizations s' = membersToOrganizations s @
               [\<lparr>mto_memberId = req_userId r, mto_organizationId = org_id (currentOrg e),
                 mto_role = Member\<rparr>]
          \<and> orgRequests s' = filter (\<lambda>q. req_id q \<noteq> requestId) (orgRequests s)))
   \<and> ((isOwner e \<or> isAdmin e s)
       \<and> find (\<lambda>r. req_id r = requestId) (orgRequests s) = Some r
       \<and> req_organizationId r \<noteq> org_id (currentOrg e)
       \<and> memberships_of (req_userId r) (org_id (currentOrg e)) s = []
       \<and> \<not> storeFails e 0 \<and> \<not> storeFails e 1 \<and> \<not> storeFails e 2 \<and> \<not> storeFails e 3 \<longrightarrow>
        acceptOrgRequestMutation e requestId s =
          (Inr (),
           s\<lparr>membersToOrganizations := membersToOrganizations s @
                [\<lparr>mto_memberId = req_userId r, mto_organizationId = org_id (currentOrg e),
                  mto_role = Member\<rparr>],
              orgRequests := filter (\<lambda>q. req_id q \<noteq> requestId) (orgRequests s)\<rparr>)
        \<and> r \<notin> set (filter (\<lambda>q. req_id q \<noteq> requestId) (orgRequests s)))"
proof -
  have written: "\<exists>r. find (\<lambda>r. req_id r = requestId) (orgRequests s) = Some r
          \<and> membersToOrganizations s' = membersToOrganizations s @
               [\<lparr>mto_memberId = req_userId r, mto_organizationId = org_id (currentOrg e),
                 mto_role = Member\<rparr>]
          \<and> orgRequests s' = filter (\<lambda>q. req_id q \<noteq> requestId) (orgRequests s)"
    if "acceptOrgRequestMutation e requestId s = (Inr (), s')"
    using accept_success [OF that] by blast
  have gone: "r \<notin> set (filter (\<lambda>q. req_id q \<noteq> requestId) (orgRequests s))"
    if "find (\<lambda>r. req_id r = requestId) (orgRequests s) = Some r"
    using find_Some_member [OF that] by simp
  show ?thesis
    using written gone accept_ok [of e s requestId r] by blast
qed

theorem C9_accept_current_organization_witness:
  "(isOwner (as_caller ''olivia'' acme) \<or> isAdmin (as_caller ''olivia'' acme) store0)
   \<and> find (\<lambda>r. req_id r = ''req-2'') (orgRequests store0)
       = Some \<lparr>req_id = ''req-2'', req_userId = ''paul'', req_organizationId = ''org-b''\<rparr>
   \<and> ''org-b'' \<noteq> org_id (currentOrg (as_caller ''olivia'' acme))
   \<and> memberships_of ''paul'' ''org-a'' store0 = []
   \<and> acceptOrgRequestMutation (as_caller ''olivia'' acme) ''req-2'' store0 =
       (Inr (),
        store0\<lparr>membersToOrganizations := membersToOrganizations store0 @
                  [\<lparr>mto_memberId = ''paul'', mto_organizationId = ''org-a'',
                    mto_role = Member\<rparr>],
                orgRequests :=
                  [\<lparr>req_id = ''req-1'', req_userId = ''nora'',
                    req_organizationId = ''org-a''\<rparr>]\<rparr>)"
  using C9_accept_current_organization [of "as_caller ''olivia'' acme" "''req-2''" store0
          "store0\<lparr>membersToOrganizations := membersToOrganizations store0 @
                  [\<lparr>mto_memberId = ''paul'', mto_organizationId = ''org-a'',
                    mto_role = Member\<rparr>],
                orgRequests :=
                  [\<lparr>req_id = ''req-1'', req_userId = ''nora'',
                    req_organizationId = ''org-a''\<rparr>]\<rparr>"
          "\<lparr>req_id = ''req-2'', req_userId = ''paul'', req_organizationId = ''org-b''\<rparr>"]
  by (simp add: sample_defs isOwner_def isAdmin_def memberships_of_def)

section \<open>Submission of a join request\<close>

lemma send_new:
  assumes "organizationId_issues V orgId = []" and "userId_issues V (user e) = []"
    and "\<not> storeFails e 0"
    and "requests_of orgId (user e) s = []"
    and "\<forall>r \<in> set (orgRequests s). req_id r \<noteq> generatedId e"
  shows "sendOrgRequestMutation V e orgId s =
           (Inr (), s\<lparr>orgRequests := orgRequests s @
                        [\<lparr>req_id = generatedId e, req_userId = user e,
                          req_organizationId = orgId\<rparr>]\<rparr>)"
  using assms
  by (auto simp: sendOrgRequestMutation_def orgRequestSchema_def
      insert_request_onConflictDoNothing_def requests_of_def filter_empty_conv)

lemma send_duplicate:
  assumes "organizationId_issues V orgId = []" and "userId_issues V (user e) = []"
    and "\<not> storeFails e 0"
    and "requests_of orgId (user e) s \<noteq> []"
  shows "sendOrgRequestMutation V e orgId s = (Inr (), s)"
  using assms
  by (auto simp: sendOrgRequestMutation_def orgRequestSchema_def
      insert_request_onConflictDoNothing_def requests_of_def filter_empty_conv)

text \<open>
  Claim C6. Two successive calls of \<open>sendOrgRequestMutation\<close> by one caller for one
  organization, with ids that pass the schema and a store that answers, both return; the
  second changes nothing, and the store then holds exactly one request row for the pair.
  The store holds at most one such row beforehand, as its uniqueness constraint
  keeps it, and the id generated for the first call is new.
\<close>

theorem C6_send_twice:
  assumes "organizationId_issues V orgId = []" and "userId_issues V (user e1) = []"
    and "user e2 = user e1"
    and "\<not> storeFails e1 0" and "\<not> storeFails e2 0"
    and "length (requests_of orgId (user e1) s) \<le> 1"
    and "\<forall>r \<in> set (orgRequests s). req_id r \<noteq> generatedId e1"
  shows "fst (sendOrgRequestMutation V e1 orgId s) = Inr ()
         \<and> sendOrgRequestMutation V e2 orgId (snd (sendOrgRequestMutation V e1 orgId s))
             = (Inr (), snd (sendOrgRequestMutation V e1 orgId s))
         \<and> length (requests_of orgId (user e1) (snd (sendOrgRequestMutation V e1 orgId s))) = 1"
proof (cases "requests_of orgId (user e1) s = []")
  case True
  let ?s1 = "s\<lparr>orgRequests := orgRequests s @
                 [\<lparr>req_id = generatedId e1, req_userId = user e1,
                   req_organizationId = orgId\<rparr>]\<rparr>"
  have first: "sendOrgRequestMutation V e1 orgId s = (Inr (), ?s1)"
    using send_new [OF assms(1,2,4) True assms(7)] .
  have rows: "requests_of orgId (user e1) ?s1 =
                [\<lparr>req_id = generatedId e1, req_userId = user e1, req_organizationId = orgId\<rparr>]"
    using True by (simp add: requests_of_def)
  then have "requests_of orgId (user e2) ?s1 \<noteq> []"
    using assms(3) by simp
  then have second: "sendOrgRequestMutation V e2 orgId ?s1 = (Inr (), ?s1)"
    using send_duplicate [of V orgId e2 ?s1] assms(1,2,3,5) by simp
  show ?thesis
    using first second rows by simp
next
  case False
  have first: "sendOrgRequestMutation V e1 orgId s = (Inr (), s)"
    using send_duplicate [OF assms(1,2,4) False] .
  have "requests_of orgId (user e2) s \<noteq> []"
    using False assms(3) by simp
  then have second: "sendOrgRequestMutation V e2 orgId s = (Inr (), s)"
    using send_duplicate [of V orgId e2 s] assms(1,2,3,5) by simp
  have "length (requests_of orgId (user e1) s) = 1"
    using False assms(6) by (cases "requests_of orgId (user e1) s") simp_all
  then show ?thesis
    using first second by simp
qed

theorem C6_send_twice_witness:
  "length (requests_of ''org-b'' ''mia'' store0) \<le> 1
   \<and> generatedId (as_caller ''mia'' acme) \<notin> set (map req_id (orgRequests store0))
   \<and> sendOrgRequestMutation acceptAll (as_caller ''mia'' acme) ''org-b'' store0 =
       (Inr (), store0\<lparr>orgRequests := orgRequests store0 @
                  [\<lparr>req_id = ''fresh-1'', req_userId = ''mia'',
                    req_organizationId = ''org-b''\<rparr>]\<rparr>)
   \<and> sendOrgRequestMutation acceptAll
         ((as_caller ''mia'' acme)\<lparr>generatedId := ''fresh-2''\<rparr>) ''org-b''
         (snd (sendOrgRequestMutation acceptAll (as_caller ''mia'' acme) ''org-b'' store0))
       = (Inr (), snd (sendOrgRequestMutation acceptAll (as_caller ''mia'' acme) ''org-b'' store0))
   \<and> requests_of ''org-b'' ''mia''
        (snd (sendOrgRequestMutation acceptAll (as_caller ''mia'' acme) ''org-b'' store0))
       = [\<lparr>req_id = ''fresh-1'', req_userId = ''mia'', req_organizationId = ''org-b''\<rparr>]"
proof -
  have first: "sendOrgRequestMutation acceptAll (as_caller ''mia'' acme) ''org-b'' store0 =
       (Inr (), store0\<lparr>orgRequests := orgRequests store0 @
                  [\<lparr>req_id = ''fresh-1'', req_userId = ''mia'',
                    req_organizationId = ''org-b''\<rparr>]\<rparr>)"
    by (simp add: sendOrgRequestMutation_def orgRequestSchema_def
        insert_request_onConflictDoNothing_def sample_defs)
  show ?thesis
    using C6_send_twice [of acceptAll "''org-b''" "as_caller ''mia'' acme"
        "(as_caller ''mia'' acme)\<lparr>generatedId := ''fresh-2''\<rparr>" store0]
    by (simp add: first) (simp add: sample_defs requests_of_def)
qed

end
